theory Spec2Isabelle
  imports Complex_Main "HOL-Library.Sublist"
begin

section \<open>Data model (src/types.ts)\<close>

text \<open>
  A JavaScript \<open>number\<close> is NaN, an infinity, negative zero or a real number (\<open>Num 0\<close> is
  positive zero); the doubles are among these values. A numeric literal is the number it
  denotes.
\<close>

datatype number = NaN | Num real | NegZero | Infinity | NegInfinity

text \<open>\<open>x <= y\<close>: false when either side is NaN; the two zeros compare equal.\<close>

fun finiteValue :: "number \<Rightarrow> real" where
  "finiteValue (Num x) = x"
| "finiteValue n = 0"

fun numle :: "number \<Rightarrow> number \<Rightarrow> bool" where
  "numle NaN y = False"
| "numle x NaN = False"
| "numle NegInfinity y = True"
| "numle x Infinity = True"
| "numle Infinity y = False"
| "numle x NegInfinity = False"
| "numle x y = (finiteValue x \<le> finiteValue y)"

text \<open>
  The arithmetic of the JavaScript engine on doubles: the operators \<open>+ - * /\<close> and
  \<open>Math.sin\<close>, \<open>Math.cos\<close>, \<open>Math.sqrt\<close>, \<open>Math.atan2\<close>, \<open>Math.PI\<close>. What each of them returns,
  rounding, NaN and overflow included, is a parameter of every function that computes.
\<close>

record Arith =
  fadd :: "number \<Rightarrow> number \<Rightarrow> number"
  fsub :: "number \<Rightarrow> number \<Rightarrow> number"
  fmul :: "number \<Rightarrow> number \<Rightarrow> number"
  fdiv :: "number \<Rightarrow> number \<Rightarrow> number"
  fsin :: "number \<Rightarrow> number"
  fcos :: "number \<Rightarrow> number"
  fsqrt :: "number \<Rightarrow> number"
  fatan2 :: "number \<Rightarrow> number \<Rightarrow> number"
  mathPI :: number

record GeoPoint =
  latitude :: number
  longitude :: number

datatype ListingType = FREE | SWAP | SALE

datatype Category = DENIM | YARN | COTTON | SILK | WOOL | LEATHER | OTHER

datatype PostType = OFFER | REQUEST

record User =
  user_id :: string
  email :: string
  displayName :: string

text \<open>\<open>Omit<Listing, 'id' | 'user'>\<close>: the fields of a listing document as stored.\<close>

record ListingData =
  title :: string
  description :: string
  postType :: PostType
  listingType :: ListingType
  category :: Category
  quantity :: string
  imageUrl :: string
  userId :: string
  location :: GeoPoint
  locationName :: string

record Listing = ListingData +
  listing_id :: string
  user :: "User option"

section \<open>Great-circle distance (haversineDistance)\<close>

definition toRad :: "Arith \<Rightarrow> number \<Rightarrow> number" where
  "toRad ar x = fdiv ar (fmul ar x (mathPI ar)) (Num 180)"

definition haversineDistance :: "Arith \<Rightarrow> GeoPoint \<Rightarrow> GeoPoint \<Rightarrow> number" where
  "haversineDistance ar coords1 coords2 =
     (let R = Num 6371;
          dLat = toRad ar (fsub ar (latitude coords2) (latitude coords1));
          dLon = toRad ar (fsub ar (longitude coords2) (longitude coords1));
          lat1 = toRad ar (latitude coords1);
          lat2 = toRad ar (latitude coords2);
          a = fadd ar
                (fmul ar (fsin ar (fdiv ar dLat (Num 2))) (fsin ar (fdiv ar dLat (Num 2))))
                (fmul ar
                   (fmul ar
                      (fmul ar (fsin ar (fdiv ar dLon (Num 2))) (fsin ar (fdiv ar dLon (Num 2))))
                      (fcos ar lat1))
                   (fcos ar lat2));
          c = fmul ar (Num 2) (fatan2 ar (fsqrt ar a) (fsqrt ar (fsub ar (Num 1) a)))
      in fmul ar R c)"

section \<open>The in-memory service (src/services/firebaseService.ts)\<close>

text \<open>
  \<open>mockUsers\<close> and \<open>mockListings\<close> are module-level arrays that \<open>createListing\<close> extends, so
  the functions take them as arguments. \<open>mockUsers.find(u => u.id === listing.userId)\<close> is
  \<open>find\<close>; \<open>{...listing, user: ...}\<close> overwrites the \<open>user\<close> field.
\<close>


definition attachUser :: "User list \<Rightarrow> Listing \<Rightarrow> Listing" where
  "attachUser mockUsers listing =
     listing\<lparr>user := find (\<lambda>u. user_id u = userId listing) mockUsers\<rparr>"

definition getNearbyListings_mock ::
  "Arith \<Rightarrow> User list \<Rightarrow> Listing list \<Rightarrow> GeoPoint \<Rightarrow> number \<Rightarrow> Listing list" where
  "getNearbyListings_mock ar mockUsers mockListings center radiusInKm =
     filter (\<lambda>listing. numle (haversineDistance ar center (location listing)) radiusInKm)
       (map (attachUser mockUsers) mockListings)"

section \<open>The substring geocoder (geoService, mock version)\<close>

text \<open>
  Strings are lists of 8-bit characters. \<open>toLowerCase\<close> maps the letters A to Z to a to z and
  leaves every other character alone. (JavaScript also lowers letters outside ASCII; none of
  them becomes a letter of the two city names searched for.)
\<close>

definition toLowerChar :: "char \<Rightarrow> char" where
  "toLowerChar c =
     (let n = (of_char c :: nat) in if 65 \<le> n \<and> n \<le> 90 then char_of (n + 32) else c)"

definition toLowerCase :: "string \<Rightarrow> string" where
  "toLowerCase s = map toLowerChar s"

text \<open>\<open>s.includes(t)\<close>: \<open>t\<close> occurs in \<open>s\<close> at some position.\<close>

fun str_includes :: "string \<Rightarrow> string \<Rightarrow> bool" where
  "str_includes [] t = (t = [])"
| "str_includes (c # cs) t = (prefix t (c # cs) \<or> str_includes cs t)"

definition london :: GeoPoint where
  "london = \<lparr>latitude = Num 51.5074, longitude = Num (- 0.1278)\<rparr>"

definition manchester :: GeoPoint where
  "manchester = \<lparr>latitude = Num 53.4808, longitude = Num (- 2.2426)\<rparr>"

definition birmingham :: GeoPoint where
  "birmingham = \<lparr>latitude = Num 52.4862, longitude = Num (- 1.8904)\<rparr>"

text \<open>
  An \<open>async\<close> function either resolves to a value (\<open>Inr\<close>) or rejects with the message of the
  \<open>Error\<close> it throws (\<open>Inl\<close>). The body below has no \<open>throw\<close> and awaits only a timer.
\<close>

definition geocode :: "string \<Rightarrow> string + GeoPoint" where
  "geocode postcode =
     (if str_includes (toLowerCase postcode) ''london'' then Inr london
      else if str_includes (toLowerCase postcode) ''manchester'' then Inr manchester
      else Inr birmingham)"

section \<open>MapView (src/components/MapView.tsx)\<close>

text \<open>A filter state of type \<open>T | 'all'\<close>.\<close>

datatype 'a or_all = all_values | only 'a

record MapViewState =
  listings :: "Listing list"
  filteredListings :: "Listing list"
  center :: GeoPoint
  searchQuery :: string
  isLoading :: bool
  error :: "string option"
  categoryFilter :: "Category or_all"
  listingTypeFilter :: "ListingType or_all"
  postTypeFilter :: "PostType or_all"

text \<open>The three stages of the filtering effect, in the order of the source.\<close>

definition filterByPostType :: "PostType or_all \<Rightarrow> Listing list \<Rightarrow> Listing list" where
  "filterByPostType f result =
     (case f of all_values \<Rightarrow> result | only p \<Rightarrow> filter (\<lambda>l. postType l = p) result)"

definition filterByCategory :: "Category or_all \<Rightarrow> Listing list \<Rightarrow> Listing list" where
  "filterByCategory f result =
     (case f of all_values \<Rightarrow> result | only c \<Rightarrow> filter (\<lambda>l. category l = c) result)"

definition filterByListingType :: "ListingType or_all \<Rightarrow> Listing list \<Rightarrow> Listing list" where
  "filterByListingType f result =
     (case f of all_values \<Rightarrow> result
      | only t \<Rightarrow> filter (\<lambda>l. postType l \<noteq> OFFER \<or> listingType l = t) result)"

definition filterListings ::
  "PostType or_all \<Rightarrow> Category or_all \<Rightarrow> ListingType or_all \<Rightarrow> Listing list \<Rightarrow> Listing list" where
  "filterListings pf cf tf ls = filterByListingType tf (filterByCategory cf (filterByPostType pf ls))"

definition applyFilters :: "MapViewState \<Rightarrow> MapViewState" where
  "applyFilters s =
     s\<lparr>filteredListings :=
         filterListings (postTypeFilter s) (categoryFilter s) (listingTypeFilter s) (listings s)\<rparr>"

text \<open>
  \<open>handleSearch\<close>, with the geocoder it imports as a parameter (the source has two
  interchangeable ones). An empty query returns at once.
\<close>

definition handleSearch :: "(string \<Rightarrow> string + GeoPoint) \<Rightarrow> MapViewState \<Rightarrow> MapViewState" where
  "handleSearch geo s =
     (if searchQuery s = [] then s
      else (case geo (searchQuery s) of
              Inr newLocation \<Rightarrow> s\<lparr>isLoading := True, center := newLocation\<rparr>
            | Inl err \<Rightarrow>
                s\<lparr>isLoading := False,
                  error := Some ''Could not find that location. Please try another.''\<rparr>))"

section \<open>The hosted backend, as the services see it\<close>

text \<open>
  The vendor SDK is not part of the repository. Each of its asynchronous calls either
  rejects with an error object or resolves; which one happens, the ids it gives to new
  documents, where a new document shows up in later query results, and the clock, are
  parameters of the model, indexed by the number of vendor calls made so far. A query
  returns the matching documents of a collection in the collection's order.
\<close>

type_synonym Timestamp = nat

record VendorError =
  code :: "string option"
  message :: string

record FirebaseUser =
  uid :: string
  fu_email :: "string option"
  fu_displayName :: "string option"

record Vendor =
  fault :: "nat \<Rightarrow> VendorError option"
  newId :: "nat \<Rightarrow> string"
  newPos :: "nat \<Rightarrow> nat"
  now :: "nat \<Rightarrow> Timestamp"
  dateNow :: "nat \<Rightarrow> nat"
  authUser :: "nat \<Rightarrow> FirebaseUser"
  downloadURL :: "string \<Rightarrow> string"

record UserDoc =
  email_doc :: string
  displayName_doc :: string
  createdAt_doc :: Timestamp

record ListingDoc = ListingData +
  createdAt_listing :: Timestamp
  updatedAt_listing :: "Timestamp option"

record GalleryDoc =
  gallery_title :: string
  gallery_imageUrl :: string
  gallery_userId :: string
  originalListingId :: "string option"


record ConversationData =
  participantIds :: "string list"
  lastMessageText :: string
  updatedAt :: Timestamp

record MessageData =
  senderId :: string
  msg_text :: string
  createdAt :: Timestamp

record File =
  file_name :: string
  file_bytes :: "nat list"

text \<open>\<open>console.error\<close> and \<open>console.warn\<close> calls; the informational \<open>console.log\<close> lines are left out.\<close>

datatype LogEntry = ConsoleError string VendorError | ConsoleWarn string VendorError

record World =
  usersCol :: "string \<rightharpoonup> UserDoc"
  listingsCol :: "(string \<times> ListingDoc) list"
  galleryCol :: "(string \<times> GalleryDoc) list"
  conversationsCol :: "(string \<times> ConversationData) list"
  messagesCol :: "string \<Rightarrow> (string \<times> MessageData) list"
  storageFiles :: "string \<rightharpoonup> File"
  signedIn :: "FirebaseUser option"
  calls :: nat
  console :: "LogEntry list"

definition tick :: "World \<Rightarrow> World" where
  "tick w = w\<lparr>calls := Suc (calls w)\<rparr>"

definition insertAt :: "nat \<Rightarrow> 'a \<Rightarrow> 'a list \<Rightarrow> 'a list" where
  "insertAt k x xs = take k xs @ x # drop k xs"

definition notFound :: VendorError where
  "notFound = \<lparr>code = Some ''not-found'', message = ''No document to update''\<rparr>"

subsection \<open>Authentication and storage calls\<close>


definition createUserWithEmailAndPassword ::
  "Vendor \<Rightarrow> string \<Rightarrow> string \<Rightarrow> World \<Rightarrow> (VendorError + FirebaseUser) \<times> World" where
  "createUserWithEmailAndPassword v em pw w =
     (case fault v (calls w) of
        Some e \<Rightarrow> (Inl e, tick w)
      | None \<Rightarrow> (Inr (authUser v (calls w)), tick (w\<lparr>signedIn := Some (authUser v (calls w))\<rparr>)))"

text \<open>\<open>updateProfile\<close> also sets the display name of the user object it is given.\<close>

definition updateProfile ::
  "Vendor \<Rightarrow> FirebaseUser \<Rightarrow> string \<Rightarrow> World \<Rightarrow> (VendorError + FirebaseUser) \<times> World" where
  "updateProfile v fu dn w =
     (case fault v (calls w) of
        Some e \<Rightarrow> (Inl e, tick w)
      | None \<Rightarrow> (Inr (fu\<lparr>fu_displayName := Some dn\<rparr>),
                 tick (w\<lparr>signedIn := Some (fu\<lparr>fu_displayName := Some dn\<rparr>)\<rparr>)))"




subsection \<open>Document store calls\<close>

definition setDoc_users ::
  "Vendor \<Rightarrow> string \<Rightarrow> UserDoc \<Rightarrow> World \<Rightarrow> (VendorError + unit) \<times> World" where
  "setDoc_users v i d w =
     (case fault v (calls w) of
        Some e \<Rightarrow> (Inl e, tick w)
      | None \<Rightarrow> (Inr (), tick (w\<lparr>usersCol := (usersCol w)(i \<mapsto> d)\<rparr>)))"

definition getDoc_users ::
  "Vendor \<Rightarrow> string \<Rightarrow> World \<Rightarrow> (VendorError + UserDoc option) \<times> World" where
  "getDoc_users v i w =
     (case fault v (calls w) of
        Some e \<Rightarrow> (Inl e, tick w)
      | None \<Rightarrow> (Inr (usersCol w i), tick w))"


definition getDocs_listings ::
  "Vendor \<Rightarrow> World \<Rightarrow> (VendorError + (string \<times> ListingDoc) list) \<times> World" where
  "getDocs_listings v w =
     (case fault v (calls w) of
        Some e \<Rightarrow> (Inl e, tick w)
      | None \<Rightarrow> (Inr (listingsCol w), tick w))"





text \<open>\<open>query(collection(db, 'conversations'), where('participantIds', 'array-contains', u))\<close>\<close>

definition getDocs_conversations_containing ::
  "Vendor \<Rightarrow> string \<Rightarrow> World \<Rightarrow> (VendorError + (string \<times> ConversationData) list) \<times> World" where
  "getDocs_conversations_containing v u w =
     (case fault v (calls w) of
        Some e \<Rightarrow> (Inl e, tick w)
      | None \<Rightarrow> (Inr (filter (\<lambda>(i, d). u \<in> set (participantIds d)) (conversationsCol w)), tick w))"

definition addDoc_conversations ::
  "Vendor \<Rightarrow> ConversationData \<Rightarrow> World \<Rightarrow> (VendorError + string) \<times> World" where
  "addDoc_conversations v d w =
     (case fault v (calls w) of
        Some e \<Rightarrow> (Inl e, tick w)
      | None \<Rightarrow>
          (Inr (newId v (calls w)),
           tick (w\<lparr>conversationsCol :=
                    insertAt (newPos v (calls w)) (newId v (calls w), d) (conversationsCol w)\<rparr>)))"

text \<open>\<open>addDoc(collection(db, 'conversations', conversationId, 'messages'), ...)\<close>\<close>

definition addDoc_messages ::
  "Vendor \<Rightarrow> string \<Rightarrow> MessageData \<Rightarrow> World \<Rightarrow> (VendorError + string) \<times> World" where
  "addDoc_messages v cid m w =
     (case fault v (calls w) of
        Some e \<Rightarrow> (Inl e, tick w)
      | None \<Rightarrow>
          (Inr (newId v (calls w)),
           tick (w\<lparr>messagesCol :=
                    (messagesCol w)
                      (cid := insertAt (newPos v (calls w)) (newId v (calls w), m)
                                (messagesCol w cid))\<rparr>)))"

definition updateDoc_conversations ::
  "Vendor \<Rightarrow> string \<Rightarrow> (ConversationData \<Rightarrow> ConversationData) \<Rightarrow> World \<Rightarrow>
     (VendorError + unit) \<times> World" where
  "updateDoc_conversations v i upd w =
     (case fault v (calls w) of
        Some e \<Rightarrow> (Inl e, tick w)
      | None \<Rightarrow>
          (if i \<in> set (map fst (conversationsCol w))
           then (Inr (),
                 tick (w\<lparr>conversationsCol :=
                          map (\<lambda>(j, d). if j = i then (j, upd d) else (j, d))
                            (conversationsCol w)\<rparr>))
           else (Inl notFound, tick w)))"

section \<open>The Firestore service layer\<close>

text \<open>
  A service call returns the message of the \<open>Error\<close> it throws (\<open>Inl\<close>) or its result
  (\<open>Inr\<close>), and the world it leaves. \<open>catchAll\<close> is the handler most of them share:
  \<open>catch (error) { console.error(label, error); throw new Error(msg); }\<close>.
\<close>

definition catchAll ::
  "string \<Rightarrow> string \<Rightarrow> (VendorError + 'a) \<times> World \<Rightarrow> (string + 'a) \<times> World" where
  "catchAll label msg r =
     (case r of
        (Inl e, w) \<Rightarrow> (Inl msg, w\<lparr>console := console w @ [ConsoleError label e]\<rparr>)
      | (Inr x, w) \<Rightarrow> (Inr x, w))"

subsection \<open>authService\<close>

text \<open>\<open>a || b\<close> on a string that may be null: the empty string is falsy too.\<close>

definition orElse :: "string option \<Rightarrow> string \<Rightarrow> string" where
  "orElse a b = (case a of None \<Rightarrow> b | Some s \<Rightarrow> if s \<noteq> [] then s else b)"

text \<open>\<open>email?.split('@')[0]\<close>: the part before the first \<open>@\<close>.\<close>

definition convertFirebaseUser :: "FirebaseUser \<Rightarrow> User" where
  "convertFirebaseUser firebaseUser =
     \<lparr>user_id = uid firebaseUser,
      email = orElse (fu_email firebaseUser) [],
      displayName =
        orElse (fu_displayName firebaseUser)
          (orElse (map_option (takeWhile (\<lambda>c. c \<noteq> CHR ''@'')) (fu_email firebaseUser))
             ''User'')\<rparr>"




definition signUpMessage :: "string option \<Rightarrow> string" where
  "signUpMessage c =
     (if c = Some ''auth/email-already-in-use'' then ''Email is already registered''
      else if c = Some ''auth/invalid-email'' then ''Invalid email address''
      else if c = Some ''auth/weak-password'' then ''Password should be at least 6 characters''
      else ''Failed to create account. Please try again'')"

definition signUp_try ::
  "Vendor \<Rightarrow> string \<Rightarrow> string \<Rightarrow> string \<Rightarrow> World \<Rightarrow> (VendorError + User) \<times> World" where
  "signUp_try v em password dn w =
     (case createUserWithEmailAndPassword v em password w of
        (Inl e, w1) \<Rightarrow> (Inl e, w1)
      | (Inr fu, w1) \<Rightarrow>
          (case updateProfile v fu dn w1 of
             (Inl e, w2) \<Rightarrow> (Inl e, w2)
           | (Inr fu', w2) \<Rightarrow>
               (case setDoc_users v (uid fu')
                       \<lparr>email_doc = em, displayName_doc = dn, createdAt_doc = now v (calls w2)\<rparr> w2 of
                  (Inl e, w3) \<Rightarrow> (Inl e, w3)
                | (Inr u, w3) \<Rightarrow> (Inr (convertFirebaseUser fu'), w3))))"

definition signUp ::
  "Vendor \<Rightarrow> string \<Rightarrow> string \<Rightarrow> string \<Rightarrow> World \<Rightarrow> (string + User) \<times> World" where
  "signUp v em password dn w =
     (case signUp_try v em password dn w of
        (Inr u, w1) \<Rightarrow> (Inr u, w1)
      | (Inl e, w1) \<Rightarrow>
          (Inl (signUpMessage (code e)),
           w1\<lparr>console := console w1 @ [ConsoleError ''Sign up error:'' e]\<rparr>))"

subsection \<open>Storage\<close>

fun showNat :: "nat \<Rightarrow> string" where
  "showNat n =
     (if n < 10 then [char_of (48 + n)] else showNat (n div 10) @ [char_of (48 + n mod 10)])"



subsection \<open>Listings and gallery\<close>

text \<open>
  The nested \<open>try { getDoc(doc(db, 'users', id)) ... } catch (error) { console.warn(label, error) }\<close>
  that fills in the denormalised user: a failure is logged as a warning and the user stays
  undefined.
\<close>

definition lookupUser :: "Vendor \<Rightarrow> string \<Rightarrow> string \<Rightarrow> World \<Rightarrow> User option \<times> World" where
  "lookupUser v label i w =
     (case getDoc_users v i w of
        (Inl e, w1) \<Rightarrow> (None, w1\<lparr>console := console w1 @ [ConsoleWarn label e]\<rparr>)
      | (Inr None, w1) \<Rightarrow> (None, w1)
      | (Inr (Some userData), w1) \<Rightarrow>
          (Some \<lparr>user_id = i, email = email_doc userData, displayName = displayName_doc userData\<rparr>,
           w1))"

text \<open>\<open>if (data.userId) { ... }\<close>: no lookup for an empty user id.\<close>

definition lookupUserIfSet :: "Vendor \<Rightarrow> string \<Rightarrow> string \<Rightarrow> World \<Rightarrow> User option \<times> World" where
  "lookupUserIfSet v label i w = (if i \<noteq> [] then lookupUser v label i w else (None, w))"

definition listingOf :: "'a ListingData_scheme \<Rightarrow> string \<Rightarrow> User option \<Rightarrow> Listing" where
  "listingOf d i u =
     \<lparr>title = title d, description = description d, postType = postType d,
      listingType = listingType d, category = category d, quantity = quantity d,
      imageUrl = imageUrl d, userId = userId d, location = location d,
      locationName = locationName d, listing_id = i, user = u\<rparr>"

definition listingDocOf :: "ListingData \<Rightarrow> Timestamp \<Rightarrow> ListingDoc" where
  "listingDocOf d t =
     \<lparr>title = title d, description = description d, postType = postType d,
      listingType = listingType d, category = category d, quantity = quantity d,
      imageUrl = imageUrl d, userId = userId d, location = location d,
      locationName = locationName d, createdAt_listing = t, updatedAt_listing = None\<rparr>"



text \<open>The \<open>for\<close> loop of \<open>getNearbyListings\<close> over the fetched documents.\<close>

fun nearbyLoop ::
  "Arith \<Rightarrow> Vendor \<Rightarrow> GeoPoint \<Rightarrow> number \<Rightarrow> (string \<times> ListingDoc) list \<Rightarrow> Listing list \<Rightarrow>
     World \<Rightarrow> Listing list \<times> World" where
  "nearbyLoop ar v c r [] acc w = (acc, w)"
| "nearbyLoop ar v c r ((i, data) # docs) acc w =
     (if numle (haversineDistance ar c (location data)) r
      then (case lookupUserIfSet v ''Could not fetch user data for listing:'' (userId data) w of
              (u, w1) \<Rightarrow> nearbyLoop ar v c r docs (acc @ [listingOf data i u]) w1)
      else nearbyLoop ar v c r docs acc w)"

definition getNearbyListings_try ::
  "Arith \<Rightarrow> Vendor \<Rightarrow> GeoPoint \<Rightarrow> number \<Rightarrow> World \<Rightarrow> (VendorError + Listing list) \<times> World" where
  "getNearbyListings_try ar v c radiusInKm w =
     (case getDocs_listings v w of
        (Inl e, w1) \<Rightarrow> (Inl e, w1)
      | (Inr docs, w1) \<Rightarrow>
          (case nearbyLoop ar v c radiusInKm docs [] w1 of (ls, w2) \<Rightarrow> (Inr ls, w2)))"

definition getNearbyListings ::
  "Arith \<Rightarrow> Vendor \<Rightarrow> GeoPoint \<Rightarrow> number \<Rightarrow> World \<Rightarrow> (string + Listing list) \<times> World" where
  "getNearbyListings ar v c radiusInKm w =
     catchAll ''Error fetching nearby listings:'' ''Failed to fetch listings. Please try again.''
       (getNearbyListings_try ar v c radiusInKm w)"












subsection \<open>Messaging\<close>

text \<open>
  The loop of \<open>getOrCreateConversation\<close> over the query result: the id of the first document
  whose \<open>participantIds\<close> includes the second user.
\<close>

fun scanConversations :: "string \<Rightarrow> (string \<times> ConversationData) list \<Rightarrow> string option" where
  "scanConversations user2Id [] = None"
| "scanConversations user2Id ((i, data) # docs) =
     (if user2Id \<in> set (participantIds data) then Some i else scanConversations user2Id docs)"

definition getOrCreateConversation_try ::
  "Vendor \<Rightarrow> string \<Rightarrow> string \<Rightarrow> World \<Rightarrow> (VendorError + string) \<times> World" where
  "getOrCreateConversation_try v user1Id user2Id w =
     (case getDocs_conversations_containing v user1Id w of
        (Inl e, w1) \<Rightarrow> (Inl e, w1)
      | (Inr docs, w1) \<Rightarrow>
          (case scanConversations user2Id docs of
             Some i \<Rightarrow> (Inr i, w1)
           | None \<Rightarrow>
               addDoc_conversations v
                 \<lparr>participantIds = [user1Id, user2Id], lastMessageText = [],
                  updatedAt = now v (calls w1)\<rparr> w1))"

definition getOrCreateConversation ::
  "Vendor \<Rightarrow> string \<Rightarrow> string \<Rightarrow> World \<Rightarrow> (string + string) \<times> World" where
  "getOrCreateConversation v user1Id user2Id w =
     catchAll ''Error getting or creating conversation:''
       ''Failed to start conversation. Please try again.''
       (getOrCreateConversation_try v user1Id user2Id w)"

definition sendMessage_try ::
  "Vendor \<Rightarrow> string \<Rightarrow> string \<Rightarrow> string \<Rightarrow> World \<Rightarrow> (VendorError + unit) \<times> World" where
  "sendMessage_try v conversationId sender txt w =
     (case addDoc_messages v conversationId
             \<lparr>senderId = sender, msg_text = txt, createdAt = now v (calls w)\<rparr> w of
        (Inl e, w1) \<Rightarrow> (Inl e, w1)
      | (Inr messageId, w1) \<Rightarrow>
          updateDoc_conversations v conversationId
            (\<lambda>d. d\<lparr>lastMessageText := txt, updatedAt := now v (calls w1)\<rparr>) w1)"

definition sendMessage ::
  "Vendor \<Rightarrow> string \<Rightarrow> string \<Rightarrow> string \<Rightarrow> World \<Rightarrow> (string + unit) \<times> World" where
  "sendMessage v conversationId sender txt w =
     catchAll ''Error sending message:'' ''Failed to send message. Please try again.''
       (sendMessage_try v conversationId sender txt w)"

section \<open>Specification-side notions\<close>

text \<open>
  Case-insensitive containment, stated without \<open>toLowerCase\<close>: some stretch of the query
  spells the city name letter by letter, each letter in either case.
\<close>

definition isUpperOf :: "char \<Rightarrow> char \<Rightarrow> bool" where
  "isUpperOf a b =
     (65 \<le> (of_char a :: nat) \<and> (of_char a :: nat) \<le> 90 \<and> (of_char b :: nat) = of_char a + 32)"

definition sameLetter :: "char \<Rightarrow> char \<Rightarrow> bool" where
  "sameLetter a b = (a = b \<or> isUpperOf a b \<or> isUpperOf b a)"

definition containsIgnoringCase :: "string \<Rightarrow> string \<Rightarrow> bool" where
  "containsIgnoringCase q city = (\<exists>ps w ss. q = ps @ w @ ss \<and> list_all2 sameLetter w city)"

definition lowerLetter :: "char \<Rightarrow> bool" where
  "lowerLetter x = (97 \<le> (of_char x :: nat) \<and> (of_char x :: nat) \<le> 122)"

text \<open>What a listing returned by the service keeps of the stored document: its id and data.\<close>

definition storedPart :: "Listing \<Rightarrow> string \<times> ListingData" where
  "storedPart l = (listing_id l, ListingData.truncate l)"

definition storedDoc :: "string \<times> ListingDoc \<Rightarrow> string \<times> ListingData" where
  "storedDoc p = (fst p, ListingData.truncate (snd p))"

text \<open>The computed distance from \<open>c\<close> to \<open>p\<close> compares \<open><=\<close> the radius.\<close>

definition withinRadius :: "Arith \<Rightarrow> GeoPoint \<Rightarrow> number \<Rightarrow> GeoPoint \<Rightarrow> bool" where
  "withinRadius ar c r p = numle (haversineDistance ar c p) r"


text \<open>The intermediate value \<open>a\<close> of the Haversine formula, as the code computes it.\<close>

definition haversineA :: "Arith \<Rightarrow> GeoPoint \<Rightarrow> GeoPoint \<Rightarrow> number" where
  "haversineA ar coords1 coords2 =
     (let dLat = toRad ar (fsub ar (latitude coords2) (latitude coords1));
          dLon = toRad ar (fsub ar (longitude coords2) (longitude coords1));
          lat1 = toRad ar (latitude coords1);
          lat2 = toRad ar (latitude coords2)
      in fadd ar
           (fmul ar (fsin ar (fdiv ar dLat (Num 2))) (fsin ar (fdiv ar dLat (Num 2))))
           (fmul ar
              (fmul ar
                 (fmul ar (fsin ar (fdiv ar dLon (Num 2))) (fsin ar (fdiv ar dLon (Num 2))))
                 (fcos ar lat1))
              (fcos ar lat2)))"

text \<open>The finite numbers, and among them the two zeros.\<close>

definition isZero :: "number \<Rightarrow> bool" where
  "isZero z = (z = Num 0 \<or> z = NegZero)"

definition isFiniteNumber :: "number \<Rightarrow> bool" where
  "isFiniteNumber n = (case n of Num x \<Rightarrow> True | NegZero \<Rightarrow> True | _ \<Rightarrow> False)"

text \<open>
  Arithmetic without rounding, for saying what a formula means: on finite numbers (either
  zero counting as 0) each operation is the real one, with \<open>Math.atan2\<close> by quadrants, the
  square root of a negative number NaN and a quotient by zero an infinity or NaN; on
  anything else it gives NaN.
\<close>

definition atan2 :: "real \<Rightarrow> real \<Rightarrow> real" where
  "atan2 y x =
     (if 0 < x then arctan (y / x)
      else if x < 0 then (if 0 \<le> y then arctan (y / x) + pi else arctan (y / x) - pi)
      else if 0 < y then pi / 2
      else if y < 0 then - (pi / 2)
      else 0)"

definition lift1 :: "(real \<Rightarrow> real) \<Rightarrow> number \<Rightarrow> number" where
  "lift1 f a = (if isFiniteNumber a then Num (f (finiteValue a)) else NaN)"

definition lift2 :: "(real \<Rightarrow> real \<Rightarrow> real) \<Rightarrow> number \<Rightarrow> number \<Rightarrow> number" where
  "lift2 f a b =
     (if isFiniteNumber a \<and> isFiniteNumber b then Num (f (finiteValue a) (finiteValue b))
      else NaN)"

definition exactDiv :: "number \<Rightarrow> number \<Rightarrow> number" where
  "exactDiv a b =
     (if isFiniteNumber a \<and> isFiniteNumber b
      then (if finiteValue b \<noteq> 0 then Num (finiteValue a / finiteValue b)
            else if 0 < finiteValue a then Infinity
            else if finiteValue a < 0 then NegInfinity
            else NaN)
      else NaN)"

definition exactSqrt :: "number \<Rightarrow> number" where
  "exactSqrt a =
     (if isFiniteNumber a \<and> 0 \<le> finiteValue a then Num (sqrt (finiteValue a)) else NaN)"

definition exact :: Arith where
  "exact =
     \<lparr>fadd = lift2 (+), fsub = lift2 (-), fmul = lift2 (*), fdiv = exactDiv,
      fsin = lift1 sin, fcos = lift1 cos, fsqrt = exactSqrt, fatan2 = lift2 atan2,
      mathPI = Num pi\<rparr>"

text \<open>
  Facts of double arithmetic that evaluating the distance from a point to itself needs:
  \<open>x - x\<close> is zero for a finite \<open>x\<close>; zero times \<open>Math.PI\<close>, zero divided by 180 or by 2, the
  sine and the square root of zero, and zero times zero are zero; the cosine of a latitude
  between -90 and 90 degrees is finite; a zero times a finite number is a zero of either
  sign; zero plus a zero of either sign is zero; \<open>1 - 0\<close> and the square root of 1 are 1;
  \<open>Math.atan2(0, 1)\<close> is zero; 2 and 6371 times zero are zero.
\<close>

definition ieeeFacts :: "Arith \<Rightarrow> bool" where
  "ieeeFacts ar =
     ((\<forall>x. fsub ar (Num x) (Num x) = Num 0)
      \<and> fmul ar (Num 0) (mathPI ar) = Num 0
      \<and> fdiv ar (Num 0) (Num 180) = Num 0
      \<and> fdiv ar (Num 0) (Num 2) = Num 0
      \<and> fsin ar (Num 0) = Num 0
      \<and> fmul ar (Num 0) (Num 0) = Num 0
      \<and> (\<forall>x. \<bar>x\<bar> \<le> 90 \<longrightarrow> isFiniteNumber (fcos ar (toRad ar (Num x))))
      \<and> (\<forall>z y. isZero z \<longrightarrow> isFiniteNumber y \<longrightarrow> isZero (fmul ar z y))
      \<and> (\<forall>z. isZero z \<longrightarrow> fadd ar (Num 0) z = Num 0)
      \<and> fsqrt ar (Num 0) = Num 0
      \<and> fsub ar (Num 1) (Num 0) = Num 1
      \<and> fsqrt ar (Num 1) = Num 1
      \<and> fatan2 ar (Num 0) (Num 1) = Num 0
      \<and> fmul ar (Num 2) (Num 0) = Num 0
      \<and> fmul ar (Num 6371) (Num 0) = Num 0)"

text \<open>A stored conversation whose participant list contains both users.\<close>

definition betweenUsers :: "string \<Rightarrow> string \<Rightarrow> string \<times> ConversationData \<Rightarrow> bool" where
  "betweenUsers a b p = (a \<in> set (participantIds (snd p)) \<and> b \<in> set (participantIds (snd p)))"






section \<open>Example data\<close>

text \<open>The mock database of src/services/firebaseService.ts.\<close>

definition mockUsers :: "User list" where
  "mockUsers =
     [\<lparr>user_id = ''user1'', email = ''crafter@example.com'', displayName = ''Alice''\<rparr>,
      \<lparr>user_id = ''user2'', email = ''designer@example.com'', displayName = ''Bob''\<rparr>]"

definition listing1 :: Listing where
  "listing1 =
     \<lparr>title = ''Box of Denim Scraps'',
      description = ''Various sizes of blue denim, perfect for patchwork.'',
      postType = OFFER, listingType = FREE, category = DENIM, quantity = ''5kg box'',
      imageUrl = ''https://picsum.photos/seed/denim/600/400'', userId = ''user1'',
      location = \<lparr>latitude = Num 51.51, longitude = Num (- 0.1)\<rparr>, locationName = ''Central London'',
      listing_id = ''listing1'', user = None\<rparr>"

definition listing2 :: Listing where
  "listing2 =
     \<lparr>title = ''Leftover Wool Yarn'', description = ''Assorted colors of wool yarn.'',
      postType = OFFER, listingType = SWAP, category = YARN, quantity = ''3 skeins'',
      imageUrl = ''https://picsum.photos/seed/yarn/600/400'', userId = ''user2'',
      location = \<lparr>latitude = Num 51.52, longitude = Num (- 0.14)\<rparr>,
      locationName = ''Near Regent's Park'',
      listing_id = ''listing2'', user = None\<rparr>"

definition listing3 :: Listing where
  "listing3 =
     \<lparr>title = ''ISO: Silk remnants'',
      description = ''Looking for any color silk pieces for a project.'',
      postType = REQUEST, listingType = SWAP, category = SILK, quantity = ''Any amount'',
      imageUrl = ''https://picsum.photos/seed/silk/600/400'', userId = ''user1'',
      location = \<lparr>latitude = Num 51.49, longitude = Num (- 0.15)\<rparr>, locationName = ''Hyde Park Area'',
      listing_id = ''listing3'', user = None\<rparr>"

definition mockListings :: "Listing list" where
  "mockListings = [listing1, listing2, listing3]"

text \<open>A vendor that never fails, and one whose \<open>k\<close>-th call (counting from 0) fails.\<close>

definition quietVendor :: Vendor where
  "quietVendor =
     \<lparr>fault = (\<lambda>n. None), newId = (\<lambda>n. ''doc'' @ showNat n), newPos = (\<lambda>n. 0),
      now = (\<lambda>n. 1000 + n), dateNow = (\<lambda>n. 1700 + n),
      authUser = (\<lambda>n. \<lparr>uid = ''uid1'', fu_email = Some ''crafter@example.com'',
                          fu_displayName = None\<rparr>),
      downloadURL = (\<lambda>p. ''https://storage.example/'' @ p)\<rparr>"

definition failingVendor :: "nat \<Rightarrow> VendorError \<Rightarrow> Vendor" where
  "failingVendor k e = quietVendor\<lparr>fault := (\<lambda>n. if n = k then Some e else None)\<rparr>"


definition emptyWorld :: World where
  "emptyWorld =
     \<lparr>usersCol = Map.empty, listingsCol = [], galleryCol = [], conversationsCol = [],
      messagesCol = (\<lambda>c. []), storageFiles = Map.empty, signedIn = None, calls = 0,
      console = []\<rparr>"

text \<open>A store holding the first mock listing only, and one holding a listing on the far side
  of the globe from the point at latitude 0, longitude 0.\<close>

definition oneListingWorld :: World where
  "oneListingWorld =
     emptyWorld\<lparr>listingsCol := [(''listing1'', listingDocOf (ListingData.truncate listing1) 0)]\<rparr>"





text \<open>A store with two conversations, the second one between user1 and user2.\<close>

definition chatWorld :: World where
  "chatWorld =
     emptyWorld\<lparr>conversationsCol :=
       [(''c1'', \<lparr>participantIds = [''user1'', ''user3''], lastMessageText = ''hello'',
                  updatedAt = 5\<rparr>),
        (''c2'', \<lparr>participantIds = [''user2'', ''user1''], lastMessageText = [],
                  updatedAt = 7\<rparr>)]\<rparr>"

definition emailInUse :: VendorError where
  "emailInUse =
     \<lparr>code = Some ''auth/email-already-in-use'',
      message = ''Firebase: Error (auth/email-already-in-use).''\<rparr>"

section \<open>Verification\<close>

subsection \<open>The substring geocoder\<close>

lemma str_includes_iff: "str_includes s t \<longleftrightarrow> sublist t s"
  by (induction s) (auto simp: sublist_Cons_right)

lemma toLowerChar_eq_iff:
  assumes "lowerLetter x"
  shows "toLowerChar c = x \<longleftrightarrow> sameLetter c x"
proof
  assume h: "toLowerChar c = x"
  show "sameLetter c x"
  proof (cases "65 \<le> (of_char c :: nat) \<and> (of_char c :: nat) \<le> 90")
    case True
    then have "x = char_of (of_char c + 32 :: nat)"
      using h by (simp add: toLowerChar_def Let_def)
    then have "(of_char x :: nat) = (of_char c + 32) mod 256" by simp
    with True have "(of_char x :: nat) = of_char c + 32" by simp
    with True show ?thesis by (simp add: sameLetter_def isUpperOf_def)
  next
    case False
    then have "x = c" using h by (auto simp add: toLowerChar_def Let_def)
    then show ?thesis by (simp add: sameLetter_def)
  qed
next
  assume "sameLetter c x"
  then consider "c = x" | "isUpperOf c x" | "isUpperOf x c"
    by (auto simp: sameLetter_def)
  then show "toLowerChar c = x"
  proof cases
    case 1
    with assms show ?thesis by (auto simp: toLowerChar_def Let_def lowerLetter_def)
  next
    case 2
    then have "toLowerChar c = char_of (of_char x :: nat)"
      by (simp add: toLowerChar_def Let_def isUpperOf_def)
    then show ?thesis by simp
  next
    case 3
    with assms show ?thesis by (simp add: isUpperOf_def lowerLetter_def)
  qed
qed

lemma toLowerCase_eq_iff:
  "list_all lowerLetter city \<Longrightarrow> toLowerCase w = city \<longleftrightarrow> list_all2 sameLetter w city"
proof (induction city arbitrary: w)
  case Nil
  then show ?case by (simp add: toLowerCase_def)
next
  case (Cons x xs)
  then show ?case
    by (cases w) (auto simp: toLowerCase_def toLowerChar_eq_iff)
qed

lemma includes_lower_iff:
  assumes "list_all lowerLetter city"
  shows "str_includes (toLowerCase q) city \<longleftrightarrow> containsIgnoringCase q city"
proof -
  have "sublist city (toLowerCase q) \<longleftrightarrow> (\<exists>ps w ss. q = ps @ w @ ss \<and> toLowerCase w = city)"
    unfolding sublist_def toLowerCase_def
    by (auto simp: map_eq_append_conv append_eq_map_conv) blast+
  then show ?thesis
    using assms by (simp add: str_includes_iff containsIgnoringCase_def toLowerCase_eq_iff)
qed

lemma lower_london: "list_all lowerLetter ''london''"
  by (simp add: lowerLetter_def)

lemma lower_manchester: "list_all lowerLetter ''manchester''"
  by (simp add: lowerLetter_def)

text \<open>
  C7. The mock geocoder resolves every query by case-insensitive substring match: latitude
  51.5074, longitude -0.1278 if the query contains "london"; otherwise latitude 53.4808,
  longitude -2.2426 if it contains "manchester"; otherwise latitude 52.4862, longitude
  -1.8904 (Birmingham).
\<close>

theorem geocode_substring_match:
  "geocode q =
     Inr (if containsIgnoringCase q ''london''
          then \<lparr>latitude = Num 51.5074, longitude = Num (- 0.1278)\<rparr>
          else if containsIgnoringCase q ''manchester''
          then \<lparr>latitude = Num 53.4808, longitude = Num (- 2.2426)\<rparr>
          else \<lparr>latitude = Num 52.4862, longitude = Num (- 1.8904)\<rparr>)"
  by (simp add: geocode_def includes_lower_iff [OF lower_london]
        includes_lower_iff [OF lower_manchester] london_def manchester_def birmingham_def)

lemma example_queries:
  "str_includes (toLowerCase ''Greater LONDON'') ''london''"
  "\<not> str_includes (toLowerCase ''Manchester, UK'') ''london''"
  "str_includes (toLowerCase ''Manchester, UK'') ''manchester''"
  "\<not> str_includes (toLowerCase ''Leeds'') ''london''"
  "\<not> str_includes (toLowerCase ''Leeds'') ''manchester''"
  "str_includes (toLowerCase ''Manchester via London'') ''london''"
  by code_simp+

theorem geocode_substring_match_witness:
  "geocode ''Greater LONDON'' = Inr \<lparr>latitude = Num 51.5074, longitude = Num (- 0.1278)\<rparr>
   \<and> geocode ''Manchester, UK'' = Inr \<lparr>latitude = Num 53.4808, longitude = Num (- 2.2426)\<rparr>
   \<and> geocode ''Leeds'' = Inr \<lparr>latitude = Num 52.4862, longitude = Num (- 1.8904)\<rparr>
   \<and> geocode ''Manchester via London'' =
       Inr \<lparr>latitude = Num 51.5074, longitude = Num (- 0.1278)\<rparr>
   \<and> geocode [] = Inr \<lparr>latitude = Num 52.4862, longitude = Num (- 1.8904)\<rparr>"
proof -
  have e: "\<not> containsIgnoringCase [] ''london''" "\<not> containsIgnoringCase [] ''manchester''"
    by (simp_all add: containsIgnoringCase_def)
  show ?thesis
    using geocode_substring_match [of "''Greater LONDON''"]
      geocode_substring_match [of "''Manchester, UK''"]
      geocode_substring_match [of "''Leeds''"]
      geocode_substring_match [of "''Manchester via London''"]
      geocode_substring_match [of "[]"]
      example_queries e
    by (simp add: includes_lower_iff [OF lower_london, symmetric]
        includes_lower_iff [OF lower_manchester, symmetric])
qed

text \<open>
  C10. The mock geocoder never rejects: every query, the empty one included, resolves to one
  of the three points (the empty query to Birmingham), so \<open>handleSearch\<close> run with it never
  sets the error message of its \<open>catch\<close> branch.
\<close>

theorem geocode_total:
  "(geocode q = Inr london \<or> geocode q = Inr manchester \<or> geocode q = Inr birmingham)
   \<and> geocode [] = Inr birmingham
   \<and> error (handleSearch geocode s) = error s"
  by (auto simp: geocode_def handleSearch_def toLowerCase_def)

subsection \<open>The MapView filters\<close>

text \<open>
  C4. The deal-type stage of the MapView filter pipeline keeps every request listing it is
  given, whatever the filter value and whatever the listing's own deal type: the request
  rows of the pipeline's output are those that pass the post-type and category stages. On
  offer rows the stage is the equality test, and the value \<open>all\<close> switches it off.
\<close>

theorem listingType_filter_ignores_requests:
  "filter (\<lambda>l. postType l = REQUEST) (filterByListingType tf xs) = filter (\<lambda>l. postType l = REQUEST) xs
   \<and> filter (\<lambda>l. postType l = REQUEST) (filterListings pf cf tf ls)
       = filter (\<lambda>l. postType l = REQUEST) (filterByCategory cf (filterByPostType pf ls))
   \<and> filter (\<lambda>l. postType l = OFFER) (filterByListingType (only t) xs)
       = filter (\<lambda>l. postType l = OFFER \<and> listingType l = t) xs
   \<and> filterByListingType all_values xs = xs"
proof -
  have a: "filter (\<lambda>l. postType l = REQUEST) (filterByListingType tf ys) = filter (\<lambda>l. postType l = REQUEST) ys" for ys
    by (cases tf) (auto simp: filterByListingType_def intro: filter_cong)
  have b: "filter (\<lambda>l. postType l = OFFER) (filterByListingType (only t) xs)
       = filter (\<lambda>l. postType l = OFFER \<and> listingType l = t) xs"
    by (auto simp: filterByListingType_def intro: filter_cong)
  show ?thesis
    using a b by (simp add: filterListings_def filterByListingType_def)
qed


theorem listingType_filter_ignores_requests_witness:
  "filter (\<lambda>l. postType l = REQUEST) (filterListings all_values all_values (only FREE) mockListings) = [listing3]
   \<and> filterListings all_values all_values (only FREE) mockListings = [listing1, listing3]
   \<and> listingType listing3 = SWAP"
  using listingType_filter_ignores_requests [of "only FREE" mockListings all_values all_values mockListings FREE]
  by (simp add: filterListings_def filterByCategory_def filterByPostType_def filterByListingType_def mockListings_def listing1_def listing2_def listing3_def)

subsection \<open>Bounds on arctan and pi\<close>




subsection \<open>The Haversine formula without rounding\<close>





lemma toRad_exact: "toRad exact (Num x) = Num (x * pi / 180)"
  by (simp add: toRad_def exact_def lift2_def exactDiv_def isFiniteNumber_def)


lemma ieeeFacts_exact: "ieeeFacts exact"
  by (auto simp add: ieeeFacts_def exact_def lift1_def lift2_def exactDiv_def exactSqrt_def
      isFiniteNumber_def isZero_def toRad_def atan2_def)

lemma numle_zero: "isZero z \<Longrightarrow> numle z r = numle (Num 0) r"
  by (cases r) (auto simp: isZero_def)

lemma haversine_same:
  assumes f: "ieeeFacts ar" and lat: "\<bar>x\<bar> \<le> 90"
  shows "haversineDistance ar \<lparr>latitude = Num x, longitude = Num y\<rparr>
           \<lparr>latitude = Num x, longitude = Num y\<rparr> = Num 0"
proof -
  from f have sub: "\<And>t. fsub ar (Num t) (Num t) = Num 0"
    and zr: "toRad ar (Num 0) = Num 0"
    and h: "fdiv ar (Num 0) (Num 2) = Num 0"
    and sn: "fsin ar (Num 0) = Num 0"
    and zz: "fmul ar (Num 0) (Num 0) = Num 0"
    and cf: "isFiniteNumber (fcos ar (toRad ar (Num x)))"
    and zm: "\<And>z t. isZero z \<Longrightarrow> isFiniteNumber t \<Longrightarrow> isZero (fmul ar z t)"
    and za: "\<And>z. isZero z \<Longrightarrow> fadd ar (Num 0) z = Num 0"
    and rest: "fsqrt ar (Num 0) = Num 0" "fsub ar (Num 1) (Num 0) = Num 1"
      "fsqrt ar (Num 1) = Num 1" "fatan2 ar (Num 0) (Num 1) = Num 0"
      "fmul ar (Num 2) (Num 0) = Num 0" "fmul ar (Num 6371) (Num 0) = Num 0"
    using lat by (simp_all add: ieeeFacts_def toRad_def)
  have z0: "isZero (Num 0)" by (simp add: isZero_def)
  have z1: "isZero (fmul ar (Num 0) (fcos ar (toRad ar (Num x))))"
    by (rule zm [OF z0 cf])
  have z2: "isZero (fmul ar (fmul ar (Num 0) (fcos ar (toRad ar (Num x))))
                      (fcos ar (toRad ar (Num x))))"
    by (rule zm [OF z1 cf])
  show ?thesis
    by (simp add: haversineDistance_def Let_def sub zr h sn zz za [OF z2] rest)
qed

subsection \<open>The radius filter\<close>



lemma nan_distance_never_within:
  "haversineDistance ar c p = NaN \<Longrightarrow> \<not> withinRadius ar c r p"
  by (simp add: withinRadius_def)

text \<open>
  When rounding takes \<open>a\<close> above 1, as doubles do for some nearly antipodal pairs, \<open>1 - a\<close> is
  negative, its square root is NaN, and so is the distance: the listing is left out at
  every radius.
\<close>

lemma haversineDistance_from_a:
  "haversineDistance ar c p =
     fmul ar (Num 6371)
       (fmul ar (Num 2)
          (fatan2 ar (fsqrt ar (haversineA ar c p))
             (fsqrt ar (fsub ar (Num 1) (haversineA ar c p)))))"
  by (simp add: haversineDistance_def haversineA_def Let_def)

lemma rounding_above_one_gives_nan:
  assumes "fsub ar (Num 1) (haversineA ar c p) = Num b" and "b < 0"
    and "fsqrt ar (Num b) = NaN"
    and "\<And>y. fatan2 ar y NaN = NaN" and "\<And>y. fmul ar y NaN = NaN"
  shows "haversineDistance ar c p = NaN" and "\<not> withinRadius ar c r p"
  using assms by (simp_all add: haversineDistance_from_a withinRadius_def)

lemma storedPart_listingOf: "storedPart (listingOf d i u) = (i, ListingData.truncate d)"
  by (simp add: storedPart_def listingOf_def ListingData.truncate_def)

lemma storedPart_attachUser: "storedPart (attachUser us l) = storedPart l"
  by (simp add: storedPart_def attachUser_def ListingData.truncate_def)

lemma location_attachUser: "location (attachUser us l) = location l"
  by (simp add: attachUser_def)

lemma nearbyLoop_stored:
  "map storedPart (fst (nearbyLoop ar v c r docs acc w)) =
     map storedPart acc
     @ map storedDoc (filter (\<lambda>p. withinRadius ar c r (location (snd p))) docs)"
proof (induction docs arbitrary: acc w)
  case Nil
  then show ?case by simp
next
  case (Cons p docs)
  obtain i d where p: "p = (i, d)" by (cases p)
  show ?case
  proof (cases "numle (haversineDistance ar c (location d)) r")
    case True
    obtain u w1 where l: "lookupUserIfSet v ''Could not fetch user data for listing:'' (userId d) w = (u, w1)"
      by (cases "lookupUserIfSet v ''Could not fetch user data for listing:'' (userId d) w")
    show ?thesis
      using True l Cons.IH [of "acc @ [listingOf d i u]" w1]
      by (simp add: p withinRadius_def storedPart_listingOf storedDoc_def)
  next
    case False
    then show ?thesis
      using Cons.IH [of acc w] by (simp add: p withinRadius_def)
  qed
qed

lemma getNearbyListings_try_result:
  "getNearbyListings_try ar v c r w =
     (case fault v (calls w) of
        Some e \<Rightarrow> (Inl e, tick w)
      | None \<Rightarrow> (Inr (fst (nearbyLoop ar v c r (listingsCol w) [] (tick w))),
                 snd (nearbyLoop ar v c r (listingsCol w) [] (tick w))))"
  by (simp add: getNearbyListings_try_def getDocs_listings_def split: option.splits prod.splits)

lemma getNearbyListings_stored:
  assumes "fst (getNearbyListings ar v c r w) = Inr res"
  shows "map storedPart res =
           map storedDoc (filter (\<lambda>p. withinRadius ar c r (location (snd p))) (listingsCol w))"
proof (cases "fault v (calls w)")
  case None
  then have "res = fst (nearbyLoop ar v c r (listingsCol w) [] (tick w))"
    using assms by (simp add: getNearbyListings_def getNearbyListings_try_result catchAll_def)
  then show ?thesis by (simp add: nearbyLoop_stored)
next
  case (Some e)
  then show ?thesis
    using assms by (simp add: getNearbyListings_def getNearbyListings_try_result catchAll_def)
qed


lemma mock_map_filter:
  "getNearbyListings_mock ar us ls c r =
     map (attachUser us) (filter (\<lambda>l. withinRadius ar c r (location l)) ls)"
  by (simp add: getNearbyListings_mock_def filter_map comp_def location_attachUser withinRadius_def)



lemma location_listing1: "location listing1 = \<lparr>latitude = Num 51.51, longitude = Num (- 0.1)\<rparr>"
  by (simp add: listing1_def)

lemma listing1_to_itself:
  "ieeeFacts ar \<Longrightarrow> haversineDistance ar (location listing1) (location listing1) = Num 0"
  by (simp add: location_listing1 haversine_same)

lemma listing1_doc:
  "location (listingDocOf (ListingData.truncate listing1) t) = location listing1"
  "userId (listingDocOf (ListingData.truncate listing1) t) = ''user1''"
  "listingOf (listingDocOf (ListingData.truncate listing1) t) ''listing1'' None = listing1"
  by (simp_all add: listingDocOf_def listingOf_def ListingData.truncate_def listing1_def)

lemma oneListing_nearby:
  assumes "ieeeFacts ar"
  shows "fst (getNearbyListings ar quietVendor (location listing1) r oneListingWorld) =
           Inr (if numle (Num 0) r then [listing1] else [])"
  by (simp add: getNearbyListings_def getNearbyListings_try_result catchAll_def quietVendor_def
      oneListingWorld_def emptyWorld_def listing1_doc listing1_to_itself [OF assms]
      lookupUserIfSet_def lookupUser_def getDoc_users_def tick_def)


text \<open>
  With a negative radius the listing at the centre is left out, in every arithmetic that
  has the facts above.
\<close>

lemma center_left_out_by_negative_radius:
  assumes "ieeeFacts ar" and "x < 0"
  shows "getNearbyListings_mock ar us [listing1] (location listing1) (Num x) = []"
  using assms by (simp add: mock_map_filter withinRadius_def listing1_to_itself)




text \<open>
  C9. The list \<open>getNearbyListings\<close> returns is a subsequence of the fetched collection in
  its order: nothing is reordered, repeated or made up. (The returned objects carry the
  stored id and data, with the user filled in.)
\<close>

theorem nearby_listings_subsequence:
  "subseq (getNearbyListings_mock ar us ls c r) (map (attachUser us) ls)
   \<and> subseq (map storedPart (getNearbyListings_mock ar us ls c r)) (map storedPart ls)
   \<and> (fst (getNearbyListings ar v c r w) = Inr res \<longrightarrow>
        subseq (map storedPart res) (map storedDoc (listingsCol w)))"
proof -
  have a: "subseq (getNearbyListings_mock ar us ls c r) (map (attachUser us) ls)"
    by (simp add: getNearbyListings_mock_def)
  have "subseq (map storedPart (getNearbyListings_mock ar us ls c r))
          (map storedPart (map (attachUser us) ls))"
    using a by (rule subseq_map)
  then have b: "subseq (map storedPart (getNearbyListings_mock ar us ls c r)) (map storedPart ls)"
    by (simp add: comp_def storedPart_attachUser)
  have c: "subseq (map storedPart res) (map storedDoc (listingsCol w))"
    if "fst (getNearbyListings ar v c r w) = Inr res"
    using getNearbyListings_stored [OF that] by (simp add: subseq_map)
  from a b c show ?thesis by blast
qed

theorem nearby_listings_subsequence_witness:
  "fst (getNearbyListings exact quietVendor (location listing1) (Num 15) oneListingWorld)
     = Inr [listing1]
   \<and> subseq (map storedPart [listing1]) (map storedDoc (listingsCol oneListingWorld))
   \<and> map storedDoc (listingsCol oneListingWorld) = [storedPart listing1]"
proof -
  have r: "fst (getNearbyListings exact quietVendor (location listing1) (Num 15) oneListingWorld)
             = Inr [listing1]"
    by (simp add: oneListing_nearby [OF ieeeFacts_exact])
  have s: "map storedDoc (listingsCol oneListingWorld) = [storedPart listing1]"
    by (simp add: oneListingWorld_def emptyWorld_def storedDoc_def storedPart_def listingDocOf_def
        ListingData.truncate_def listing1_def)
  from nearby_listings_subsequence [of exact mockUsers mockListings "location listing1" "Num 15"
      quietVendor oneListingWorld "[listing1]"] r s
  show ?thesis by simp
qed

subsection \<open>Conversations\<close>

lemma scanConversations_filter:
  "scanConversations b (filter (\<lambda>(i, d). a \<in> set (participantIds d)) xs) =
     map_option fst (find (betweenUsers a b) xs)"
  by (induction xs) (auto simp: betweenUsers_def)

lemma getOrCreateConversation_try_cases:
  "getOrCreateConversation_try v a b w =
     (case fault v (calls w) of
        Some e \<Rightarrow> (Inl e, tick w)
      | None \<Rightarrow>
          (case find (betweenUsers a b) (conversationsCol w) of
             Some p \<Rightarrow> (Inr (fst p), tick w)
           | None \<Rightarrow>
               (case fault v (Suc (calls w)) of
                  Some e \<Rightarrow> (Inl e, tick (tick w))
                | None \<Rightarrow>
                    (Inr (newId v (Suc (calls w))),
                     tick (tick w)
                       \<lparr>conversationsCol :=
                          insertAt (newPos v (Suc (calls w)))
                            (newId v (Suc (calls w)),
                             \<lparr>participantIds = [a, b], lastMessageText = [],
                              updatedAt = now v (Suc (calls w))\<rparr>)
                            (conversationsCol w)\<rparr>))))"
  by (simp add: getOrCreateConversation_try_def getDocs_conversations_containing_def
      scanConversations_filter addDoc_conversations_def tick_def split: option.splits)

lemma catchAll_Inr: "catchAll l m (Inr x, w) = (Inr x, w)"
  by (simp add: catchAll_def)

lemma catchAll_Inl: "catchAll l m (Inl e, w) = (Inl m, w\<lparr>console := console w @ [ConsoleError l e]\<rparr>)"
  by (simp add: catchAll_def)

text \<open>
  C3. When its query does not fail, \<open>getOrCreateConversation\<close> looks among the conversations
  containing the first id for the first one whose participants also include the second. If
  there is one it returns that id and the store is unchanged. Otherwise (the insert not
  failing) it inserts exactly one conversation, with the two ids as \<open>participantIds\<close> and an
  empty \<open>lastMessageText\<close>, and returns the new id.
\<close>

theorem getOrCreateConversation_finds_or_inserts:
  assumes "fault v (calls w) = None"
  shows "case find (betweenUsers a b) (conversationsCol w) of
           Some p \<Rightarrow> getOrCreateConversation v a b w = (Inr (fst p), tick w)
         | None \<Rightarrow>
             fault v (Suc (calls w)) = None \<longrightarrow>
             getOrCreateConversation v a b w =
               (Inr (newId v (Suc (calls w))),
                tick (tick w)
                  \<lparr>conversationsCol :=
                     insertAt (newPos v (Suc (calls w)))
                       (newId v (Suc (calls w)),
                        \<lparr>participantIds = [a, b], lastMessageText = [],
                         updatedAt = now v (Suc (calls w))\<rparr>)
                       (conversationsCol w)\<rparr>)"
  using assms
  by (simp add: getOrCreateConversation_def getOrCreateConversation_try_cases catchAll_Inr
      split: option.splits)


lemma quiet_no_fault: "fault quietVendor n = None"
  by (simp add: quietVendor_def)

lemma quiet_newId_1: "newId quietVendor (Suc 0) = ''doc1''"
  by code_simp

lemma calls_emptyWorld: "calls emptyWorld = 0"
  by (simp add: emptyWorld_def)


lemma find_chatWorld:
  "find (betweenUsers ''user1'' ''user2'') (conversationsCol chatWorld) =
     Some (''c2'', \<lparr>participantIds = [''user2'', ''user1''], lastMessageText = [], updatedAt = 7\<rparr>)"
  by (simp add: chatWorld_def emptyWorld_def betweenUsers_def)

theorem getOrCreateConversation_finds_or_inserts_witness:
  "fault quietVendor (calls chatWorld) = None
   \<and> getOrCreateConversation quietVendor ''user1'' ''user2'' chatWorld = (Inr ''c2'', tick chatWorld)
   \<and> fault quietVendor (calls emptyWorld) = None
   \<and> fault quietVendor (Suc (calls emptyWorld)) = None
   \<and> fst (getOrCreateConversation quietVendor ''user1'' ''user2'' emptyWorld) = Inr ''doc1''
   \<and> conversationsCol (snd (getOrCreateConversation quietVendor ''user1'' ''user2'' emptyWorld)) =
       [(''doc1'', \<lparr>participantIds = [''user1'', ''user2''], lastMessageText = [],
                    updatedAt = 1001\<rparr>)]"
proof -
  have a: "getOrCreateConversation quietVendor ''user1'' ''user2'' chatWorld = (Inr ''c2'', tick chatWorld)"
    using getOrCreateConversation_finds_or_inserts [of quietVendor chatWorld "''user1''" "''user2''"]
    by (simp add: quiet_no_fault find_chatWorld)
  have e: "find (betweenUsers ''user1'' ''user2'') (conversationsCol emptyWorld) = None"
    by (simp add: emptyWorld_def)
  have b: "getOrCreateConversation quietVendor ''user1'' ''user2'' emptyWorld =
             (Inr ''doc1'',
              tick (tick emptyWorld)
                \<lparr>conversationsCol :=
                   insertAt (newPos quietVendor (Suc 0))
                     (''doc1'', \<lparr>participantIds = [''user1'', ''user2''], lastMessageText = [],
                                 updatedAt = now quietVendor (Suc 0)\<rparr>)
                     (conversationsCol emptyWorld)\<rparr>)"
    using getOrCreateConversation_finds_or_inserts [of quietVendor emptyWorld "''user1''" "''user2''"]
    by (simp add: quiet_no_fault e calls_emptyWorld quiet_newId_1)
  have c: "insertAt (newPos quietVendor (Suc 0))
             (''doc1'', \<lparr>participantIds = [''user1'', ''user2''], lastMessageText = [],
                         updatedAt = now quietVendor (Suc 0)\<rparr>)
             (conversationsCol emptyWorld) =
           [(''doc1'', \<lparr>participantIds = [''user1'', ''user2''], lastMessageText = [],
                        updatedAt = 1001\<rparr>)]"
    by (simp add: insertAt_def quietVendor_def emptyWorld_def)
  show ?thesis
    using a b c by (simp add: quiet_no_fault)
qed

lemma betweenUsers_commute: "betweenUsers a b = betweenUsers b a"
  by (auto simp: betweenUsers_def fun_eq_iff)

lemma find_insertAt_new:
  "find P xs = None \<Longrightarrow> P x \<Longrightarrow> find P (insertAt k x xs) = Some x"
proof (induction xs arbitrary: k)
  case Nil
  then show ?case by (simp add: insertAt_def)
next
  case (Cons y ys)
  then have ny: "\<not> P y" and nys: "find P ys = None" by (auto split: if_splits)
  show ?case
  proof (cases k)
    case 0
    with Cons.prems show ?thesis by (simp add: insertAt_def)
  next
    case (Suc j)
    with Cons.IH [OF nys Cons.prems(2), of j] ny show ?thesis by (simp add: insertAt_def)
  qed
qed

lemma getOrCreateConversation_found_again:
  assumes first: "getOrCreateConversation v a b w = (Inr i, w1)"
  shows "map_option fst (find (betweenUsers a b) (conversationsCol w1)) = Some i"
proof (cases "fault v (calls w)")
  case (Some e)
  with first show ?thesis
    by (simp add: getOrCreateConversation_def getOrCreateConversation_try_cases catchAll_def)
next
  case None
  show ?thesis
  proof (cases "find (betweenUsers a b) (conversationsCol w)")
    case (Some p)
    with None first show ?thesis
      by (cases p) (auto simp add: getOrCreateConversation_def getOrCreateConversation_try_cases catchAll_def tick_def)
  next
    case nf: None
    show ?thesis
    proof (cases "fault v (Suc (calls w))")
      case (Some e)
      with None nf first show ?thesis
        by (simp add: getOrCreateConversation_def getOrCreateConversation_try_cases catchAll_def)
    next
      case n2: None
      have "betweenUsers a b (newId v (Suc (calls w)),
              \<lparr>participantIds = [a, b], lastMessageText = [], updatedAt = now v (Suc (calls w))\<rparr>)"
        by (simp add: betweenUsers_def)
      from find_insertAt_new [OF nf this] None nf n2 first show ?thesis
        by (auto simp add: getOrCreateConversation_def getOrCreateConversation_try_cases catchAll_def tick_def)
    qed
  qed
qed

lemma getOrCreateConversation_when_found:
  assumes "map_option fst (find (betweenUsers a b) (conversationsCol w)) = Some i"
    and "fault v (calls w) = None"
  shows "getOrCreateConversation v a b w = (Inr i, tick w)"
  using assms
  by (auto simp add: getOrCreateConversation_def getOrCreateConversation_try_cases catchAll_def)

lemma getOrCreateConversation_returns:
  assumes "fault v (calls w) = None" and "fault v (Suc (calls w)) = None"
  shows "\<exists>i. fst (getOrCreateConversation v a b w) = Inr i"
  using assms
  by (simp add: getOrCreateConversation_def getOrCreateConversation_try_cases catchAll_def
      split: option.splits)

text \<open>
  C2. Run one after the other, \<open>getOrCreateConversation(a, b)\<close> and then
  \<open>getOrCreateConversation(b, a)\<close> (or \<open>(a, b)\<close> again) return the same conversation id: when
  the first call returned an id and the second call's query does not fail, the second call
  returns that id and adds nothing; with a vendor that never fails both calls return.
\<close>

theorem getOrCreateConversation_same_id_either_order:
  "(fst (getOrCreateConversation v a b w) = Inr i \<longrightarrow>
      fault v (calls (snd (getOrCreateConversation v a b w))) = None \<longrightarrow>
        fst (getOrCreateConversation v b a (snd (getOrCreateConversation v a b w))) = Inr i
      \<and> fst (getOrCreateConversation v a b (snd (getOrCreateConversation v a b w))) = Inr i
      \<and> conversationsCol (snd (getOrCreateConversation v b a (snd (getOrCreateConversation v a b w))))
          = conversationsCol (snd (getOrCreateConversation v a b w)))
   \<and> ((\<forall>n. fault v n = None) \<longrightarrow>
        (\<exists>j. fst (getOrCreateConversation v a b w) = Inr j
           \<and> fst (getOrCreateConversation v b a (snd (getOrCreateConversation v a b w))) = Inr j))"
proof -
  obtain r w1 where first: "getOrCreateConversation v a b w = (r, w1)"
    by (cases "getOrCreateConversation v a b w")
  have again: "fst (getOrCreateConversation v b a w1) = Inr i
      \<and> fst (getOrCreateConversation v a b w1) = Inr i
      \<and> conversationsCol (snd (getOrCreateConversation v b a w1)) = conversationsCol w1"
    if "r = Inr i" and "fault v (calls w1) = None" for i
  proof -
    from first that have f: "map_option fst (find (betweenUsers a b) (conversationsCol w1)) = Some i"
      using getOrCreateConversation_found_again [of v a b w i w1] by simp
    then have g: "map_option fst (find (betweenUsers b a) (conversationsCol w1)) = Some i"
      by (simp add: betweenUsers_commute [of b a])
    show ?thesis
      using getOrCreateConversation_when_found [OF f that(2)]
        getOrCreateConversation_when_found [OF g that(2)]
      by (simp add: tick_def)
  qed
  have "\<exists>j. r = Inr j \<and> fst (getOrCreateConversation v b a w1) = Inr j"
    if nf: "\<forall>n. fault v n = None"
  proof -
    from getOrCreateConversation_returns [of v w a b] nf first obtain j where "r = Inr j"
      by auto
    with again [of j] nf show ?thesis by simp
  qed
  with again show ?thesis
    by (simp add: first)
qed

theorem getOrCreateConversation_same_id_either_order_witness:
  "(\<forall>n. fault quietVendor n = None)
   \<and> fst (getOrCreateConversation quietVendor ''user1'' ''user2'' emptyWorld) = Inr ''doc1''
   \<and> fault quietVendor
        (calls (snd (getOrCreateConversation quietVendor ''user1'' ''user2'' emptyWorld))) = None
   \<and> fst (getOrCreateConversation quietVendor ''user2'' ''user1''
            (snd (getOrCreateConversation quietVendor ''user1'' ''user2'' emptyWorld))) = Inr ''doc1''"
proof -
  have a: "fst (getOrCreateConversation quietVendor ''user1'' ''user2'' emptyWorld) = Inr ''doc1''"
    by (simp add: getOrCreateConversation_def getOrCreateConversation_try_cases catchAll_def
        quiet_no_fault calls_emptyWorld quiet_newId_1 emptyWorld_def)
  from getOrCreateConversation_same_id_either_order
         [of quietVendor "''user1''" "''user2''" emptyWorld "''doc1''"] a
  show ?thesis by (simp add: quiet_no_fault)
qed

subsection \<open>Messages\<close>

lemma sendMessage_try_cases:
  "sendMessage_try v cid sid txt w =
     (case fault v (calls w) of
        Some e \<Rightarrow> (Inl e, tick w)
      | None \<Rightarrow>
          (case fault v (Suc (calls w)) of
             Some e \<Rightarrow>
               (Inl e,
                tick (tick w)
                  \<lparr>messagesCol :=
                     (messagesCol w)
                       (cid := insertAt (newPos v (calls w))
                                 (newId v (calls w),
                                  \<lparr>senderId = sid, msg_text = txt, createdAt = now v (calls w)\<rparr>)
                                 (messagesCol w cid))\<rparr>)
           | None \<Rightarrow>
               (if cid \<in> set (map fst (conversationsCol w))
                then (Inr (),
                      tick (tick w)
                        \<lparr>messagesCol :=
                           (messagesCol w)
                             (cid := insertAt (newPos v (calls w))
                                       (newId v (calls w),
                                        \<lparr>senderId = sid, msg_text = txt,
                                         createdAt = now v (calls w)\<rparr>)
                                       (messagesCol w cid)),
                         conversationsCol :=
                           map (\<lambda>(j, d). if j = cid
                                           then (j, d\<lparr>lastMessageText := txt,
                                                      updatedAt := now v (Suc (calls w))\<rparr>)
                                           else (j, d))
                             (conversationsCol w)\<rparr>)
                else (Inl notFound,
                      tick (tick w)
                        \<lparr>messagesCol :=
                           (messagesCol w)
                             (cid := insertAt (newPos v (calls w))
                                       (newId v (calls w),
                                        \<lparr>senderId = sid, msg_text = txt,
                                         createdAt = now v (calls w)\<rparr>)
                                       (messagesCol w cid))\<rparr>))))"
  by (simp add: sendMessage_try_def addDoc_messages_def updateDoc_conversations_def tick_def
      split: option.splits cong: if_cong)

lemma sendMessage_success_iff:
  "fst (sendMessage v cid sid txt w) = Inr u \<longleftrightarrow>
     fault v (calls w) = None \<and> fault v (Suc (calls w)) = None
     \<and> cid \<in> set (map fst (conversationsCol w))"
  by (simp add: sendMessage_def sendMessage_try_cases catchAll_def split: option.splits)

text \<open>
  C8. A \<open>sendMessage\<close> that succeeds adds exactly one message, with the given sender and
  text, to the messages of that conversation, sets the conversation's \<open>lastMessageText\<close> to the
  text and its \<open>updatedAt\<close> to the time read before the update, and changes nothing else:
  not the participants, not another conversation or its messages, not another collection.
\<close>

theorem sendMessage_effect:
  assumes "fst (sendMessage v cid sid txt w) = Inr u"
  shows "messagesCol (snd (sendMessage v cid sid txt w)) cid =
           insertAt (newPos v (calls w))
             (newId v (calls w), \<lparr>senderId = sid, msg_text = txt, createdAt = now v (calls w)\<rparr>)
             (messagesCol w cid)
         \<and> length (messagesCol (snd (sendMessage v cid sid txt w)) cid) =
             Suc (length (messagesCol w cid))
         \<and> (\<forall>c. c \<noteq> cid \<longrightarrow>
               messagesCol (snd (sendMessage v cid sid txt w)) c = messagesCol w c)
         \<and> conversationsCol (snd (sendMessage v cid sid txt w)) =
             map (\<lambda>(j, d). if j = cid
                             then (j, d\<lparr>lastMessageText := txt, updatedAt := now v (Suc (calls w))\<rparr>)
                             else (j, d))
               (conversationsCol w)
         \<and> map (\<lambda>(j, d). (j, participantIds d)) (conversationsCol (snd (sendMessage v cid sid txt w)))
             = map (\<lambda>(j, d). (j, participantIds d)) (conversationsCol w)
         \<and> filter (\<lambda>(j, d). j \<noteq> cid) (conversationsCol (snd (sendMessage v cid sid txt w)))
             = filter (\<lambda>(j, d). j \<noteq> cid) (conversationsCol w)
         \<and> cid \<in> set (map fst (conversationsCol w))
         \<and> usersCol (snd (sendMessage v cid sid txt w)) = usersCol w
         \<and> listingsCol (snd (sendMessage v cid sid txt w)) = listingsCol w
         \<and> galleryCol (snd (sendMessage v cid sid txt w)) = galleryCol w
         \<and> storageFiles (snd (sendMessage v cid sid txt w)) = storageFiles w
         \<and> signedIn (snd (sendMessage v cid sid txt w)) = signedIn w"
proof -
  from assms have ok: "fault v (calls w) = None" "fault v (Suc (calls w)) = None"
    "cid \<in> set (map fst (conversationsCol w))"
    by (simp_all add: sendMessage_success_iff)
  have p: "map (\<lambda>(j, d). (j, participantIds d))
             (map (\<lambda>(j, d). if j = cid then (j, d\<lparr>lastMessageText := txt, updatedAt := t\<rparr>) else (j, d)) xs)
           = map (\<lambda>(j, d). (j, participantIds d)) xs" for xs :: "(string \<times> ConversationData) list" and t
    by (induction xs) auto
  have q: "filter (\<lambda>(j, d). j \<noteq> cid)
             (map (\<lambda>(j, d). if j = cid then (j, d\<lparr>lastMessageText := txt, updatedAt := t\<rparr>) else (j, d)) xs)
           = filter (\<lambda>(j, d). j \<noteq> cid) xs" for xs :: "(string \<times> ConversationData) list" and t
    by (induction xs) auto
  have l: "length (insertAt k x xs) = Suc (length xs)" for k and x :: "string \<times> MessageData" and xs
    by (simp add: insertAt_def)
  let ?w' = "snd (sendMessage v cid sid txt w)"
  have m: "messagesCol ?w' =
             (messagesCol w)
               (cid := insertAt (newPos v (calls w))
                         (newId v (calls w),
                          \<lparr>senderId = sid, msg_text = txt, createdAt = now v (calls w)\<rparr>)
                         (messagesCol w cid))"
    using ok by (simp add: sendMessage_def sendMessage_try_cases catchAll_def tick_def)
  have c: "conversationsCol ?w' =
             map (\<lambda>(j, d). if j = cid
                             then (j, d\<lparr>lastMessageText := txt, updatedAt := now v (Suc (calls w))\<rparr>)
                             else (j, d))
               (conversationsCol w)"
    using ok by (simp add: sendMessage_def sendMessage_try_cases catchAll_def tick_def)
  have rest: "usersCol ?w' = usersCol w" "listingsCol ?w' = listingsCol w"
    "galleryCol ?w' = galleryCol w" "storageFiles ?w' = storageFiles w"
    "signedIn ?w' = signedIn w"
    using ok by (simp_all add: sendMessage_def sendMessage_try_cases catchAll_def tick_def)
  have c1: "messagesCol ?w' cid =
           insertAt (newPos v (calls w))
             (newId v (calls w), \<lparr>senderId = sid, msg_text = txt, createdAt = now v (calls w)\<rparr>)
             (messagesCol w cid)"
    by (simp add: m)
  have c2: "length (messagesCol ?w' cid) = Suc (length (messagesCol w cid))"
    by (simp only: c1 l)
  have c3: "\<forall>c. c \<noteq> cid \<longrightarrow> messagesCol ?w' c = messagesCol w c"
    by (simp add: m)
  have c5: "map (\<lambda>(j, d). (j, participantIds d)) (conversationsCol ?w')
             = map (\<lambda>(j, d). (j, participantIds d)) (conversationsCol w)"
    by (simp only: c p)
  have c6: "filter (\<lambda>(j, d). j \<noteq> cid) (conversationsCol ?w')
             = filter (\<lambda>(j, d). j \<noteq> cid) (conversationsCol w)"
    by (simp only: c q)
  from c1 c2 c3 c c5 c6 ok(3) rest show ?thesis
    by blast
qed

lemma chat_ids: "map fst (conversationsCol chatWorld) = [''c1'', ''c2'']"
  by (simp add: chatWorld_def emptyWorld_def)

theorem sendMessage_effect_witness:
  "fst (sendMessage quietVendor ''c2'' ''user1'' ''Hi, I can help'' chatWorld) = Inr ()
   \<and> messagesCol (snd (sendMessage quietVendor ''c2'' ''user1'' ''Hi, I can help'' chatWorld)) ''c2'' =
       [(newId quietVendor 0,
         \<lparr>senderId = ''user1'', msg_text = ''Hi, I can help'', createdAt = 1000\<rparr>)]
   \<and> conversationsCol (snd (sendMessage quietVendor ''c2'' ''user1'' ''Hi, I can help'' chatWorld)) =
       [(''c1'', \<lparr>participantIds = [''user1'', ''user3''], lastMessageText = ''hello'',
                  updatedAt = 5\<rparr>),
        (''c2'', \<lparr>participantIds = [''user2'', ''user1''], lastMessageText = ''Hi, I can help'',
                  updatedAt = 1001\<rparr>)]"
proof -
  have s: "fst (sendMessage quietVendor ''c2'' ''user1'' ''Hi, I can help'' chatWorld) = Inr ()"
    by (simp add: sendMessage_success_iff quiet_no_fault chat_ids)
  have m: "messagesCol chatWorld ''c2'' = []" "calls chatWorld = 0"
    by (simp_all add: chatWorld_def emptyWorld_def)
  have n: "newPos quietVendor 0 = 0" "now quietVendor 0 = 1000" "now quietVendor (Suc 0) = 1001"
    by (simp_all add: quietVendor_def)
  have c: "conversationsCol chatWorld =
       [(''c1'', \<lparr>participantIds = [''user1'', ''user3''], lastMessageText = ''hello'',
                  updatedAt = 5\<rparr>),
        (''c2'', \<lparr>participantIds = [''user2'', ''user1''], lastMessageText = [],
                  updatedAt = 7\<rparr>)]"
    by (simp add: chatWorld_def emptyWorld_def)
  from sendMessage_effect [OF s] show ?thesis
    by (simp add: s m n c insertAt_def)
qed

subsection \<open>Sign-up\<close>

text \<open>
  C6. When the vendor's account-creation call fails with code
  \<open>auth/email-already-in-use\<close>, \<open>signUp\<close> fails with the message "Email is already registered",
  not with the generic fallback, after logging the vendor's error.
\<close>

theorem signUp_email_already_registered:
  assumes "fst (createUserWithEmailAndPassword v em pw w) = Inl e"
    and "code e = Some ''auth/email-already-in-use''"
  shows "fst (signUp v em pw dn w) = Inl ''Email is already registered''
         \<and> fst (signUp v em pw dn w) \<noteq> Inl ''Failed to create account. Please try again''
         \<and> console (snd (signUp v em pw dn w)) = console w @ [ConsoleError ''Sign up error:'' e]"
  using assms
  by (auto simp add: signUp_def signUp_try_def signUpMessage_def createUserWithEmailAndPassword_def
      tick_def split: option.splits)

theorem signUp_email_already_registered_witness:
  "fst (createUserWithEmailAndPassword (failingVendor 0 emailInUse) ''crafter@example.com''
          ''secret1'' emptyWorld) = Inl emailInUse
   \<and> code emailInUse = Some ''auth/email-already-in-use''
   \<and> fst (signUp (failingVendor 0 emailInUse) ''crafter@example.com'' ''secret1'' ''Alice''
            emptyWorld) = Inl ''Email is already registered''
   \<and> console (snd (signUp (failingVendor 0 emailInUse) ''crafter@example.com'' ''secret1''
                     ''Alice'' emptyWorld)) = [ConsoleError ''Sign up error:'' emailInUse]"
proof -
  have a: "fst (createUserWithEmailAndPassword (failingVendor 0 emailInUse) ''crafter@example.com''
                  ''secret1'' emptyWorld) = Inl emailInUse"
    by (simp add: createUserWithEmailAndPassword_def failingVendor_def emptyWorld_def)
  have b: "code emailInUse = Some ''auth/email-already-in-use''"
    by (simp add: emailInUse_def)
  have c: "console emptyWorld = []"
    by (simp add: emptyWorld_def)
  from signUp_email_already_registered [OF a b, of "''Alice''"] a b c show ?thesis
    by simp
qed

subsection \<open>Error handling\<close>

























end
